theory Spec2Isabelle
  imports Complex_Main "HOL-Library.AList" "HOL-Library.Char_ord" "HOL-Library.List_Lexorder"
    "HOL-Library.Multiset"
begin

section \<open>JavaScript values\<close>

text \<open>
  A JavaScript number is modelled by its special values and the rationals: arithmetic on
  finite values is exact (no rounding to 53 bits, no overflow), and zero carries no sign.
  \<open>undefined\<close> is the \<open>None\<close> of an option type.
\<close>

datatype number = NaN | PInf | NInf | Fin rat

type_synonym jsnum = "number option"

text \<open>\<open>ToNumber\<close> on a number or \<open>undefined\<close>.\<close>

fun toNumber :: "jsnum \<Rightarrow> number" where
  "toNumber None = NaN"
| "toNumber (Some x) = x"

fun num_neg :: "number \<Rightarrow> number" where
  "num_neg NaN = NaN"
| "num_neg PInf = NInf"
| "num_neg NInf = PInf"
| "num_neg (Fin x) = Fin (- x)"

fun num_add :: "number \<Rightarrow> number \<Rightarrow> number" where
  "num_add (Fin x) (Fin y) = Fin (x + y)"
| "num_add NaN _ = NaN"
| "num_add _ NaN = NaN"
| "num_add PInf NInf = NaN"
| "num_add NInf PInf = NaN"
| "num_add PInf _ = PInf"
| "num_add NInf _ = NInf"
| "num_add _ PInf = PInf"
| "num_add _ NInf = NInf"

definition num_sub :: "number \<Rightarrow> number \<Rightarrow> number" where
  "num_sub x y = num_add x (num_neg y)"

text \<open>The sign of a product or quotient with an infinite operand.\<close>

definition signed_inf :: "bool \<Rightarrow> number" where
  "signed_inf positive = (if positive then PInf else NInf)"

fun num_sgn :: "number \<Rightarrow> int" where
  "num_sgn NaN = 0"
| "num_sgn PInf = 1"
| "num_sgn NInf = - 1"
| "num_sgn (Fin x) = (if x < 0 then - 1 else if x = 0 then 0 else 1)"

fun num_mul :: "number \<Rightarrow> number \<Rightarrow> number" where
  "num_mul (Fin x) (Fin y) = Fin (x * y)"
| "num_mul NaN _ = NaN"
| "num_mul _ NaN = NaN"
| "num_mul x y =
     (if num_sgn x = 0 \<or> num_sgn y = 0 then NaN else signed_inf (num_sgn x = num_sgn y))"

fun num_div :: "number \<Rightarrow> number \<Rightarrow> number" where
  "num_div (Fin x) (Fin y) =
     (if y = 0 then (if x = 0 then NaN else signed_inf (0 < x)) else Fin (x / y))"
| "num_div NaN _ = NaN"
| "num_div _ NaN = NaN"
| "num_div (Fin x) PInf = Fin 0"
| "num_div (Fin x) NInf = Fin 0"
| "num_div PInf (Fin y) = signed_inf (0 \<le> y)"
| "num_div NInf (Fin y) = signed_inf (y < 0)"
| "num_div PInf PInf = NaN"
| "num_div PInf NInf = NaN"
| "num_div NInf PInf = NaN"
| "num_div NInf NInf = NaN"

text \<open>\<open>Math.round\<close>: the nearest integer, a tie going up.\<close>

fun math_round :: "number \<Rightarrow> number" where
  "math_round (Fin x) = Fin (of_int \<lfloor>x + 1 / 2\<rfloor>)"
| "math_round x = x"

text \<open>\<open>x > 0\<close>.\<close>

fun num_pos :: "number \<Rightarrow> bool" where
  "num_pos (Fin x) = (0 < x)"
| "num_pos PInf = True"
| "num_pos _ = False"

text \<open>\<open>x || 0\<close> on a number or \<open>undefined\<close>: \<open>undefined\<close>, \<open>NaN\<close> and zero are falsy.\<close>

fun or_zero :: "jsnum \<Rightarrow> number" where
  "or_zero None = Fin 0"
| "or_zero (Some NaN) = Fin 0"
| "or_zero (Some x) = x"

text \<open>\<open>Math.round(x * 100) / 100\<close>.\<close>

definition round2 :: "number \<Rightarrow> number" where
  "round2 x = num_div (math_round (num_mul x (Fin 100))) (Fin 100)"

text \<open>\<open>Math.pow(10, digits)\<close> for an integer number of digits.\<close>

definition pow10 :: "int \<Rightarrow> number" where
  "pow10 d = Fin (if 0 \<le> d then 10 ^ nat d else 1 / 10 ^ nat (- d))"

text \<open>
  \<open>Math.max(xs)\<close> with one argument, an array of numbers: the argument is converted by
  \<open>ToNumber\<close>, which joins the elements with commas and reads the string back as a number.
  The empty array gives the empty string and so 0, a single element gives that element, and
  two or more elements give a string with a comma, which is not a number.
\<close>

fun math_max_of_array :: "number list \<Rightarrow> number" where
  "math_max_of_array [] = Fin 0"
| "math_max_of_array [x] = x"
| "math_max_of_array _ = NaN"

text \<open>
  JSON values, as \<open>JSON.parse(JSON.stringify(x))\<close> yields them: no \<open>undefined\<close>, dates
  already turned into strings, an object as the list of its properties in order.
\<close>

datatype json = JNull | JBool bool | JNum rat | JStr string
  | JArr "json list" | JObj "(string \<times> json) list"

section \<open>The data model\<close>

text \<open>
  The objects received from the server. The properties that the terminal state reads or
  writes are fields; the remaining own properties are kept in their JSON form, in order.
\<close>

record position =
  p_id :: string
  p_type :: string
  p_symbol :: string
  p_openPrice :: jsnum
  p_volume :: jsnum
  p_swap :: jsnum
  p_commission :: jsnum
  p_profit :: jsnum
  p_unrealizedProfit :: jsnum
  p_realizedProfit :: jsnum
  p_currentPrice :: jsnum
  p_currentTickValue :: jsnum
  p_other :: "(string \<times> json) list"

record order =
  o_id :: string
  o_type :: string
  o_symbol :: string
  o_currentPrice :: jsnum
  o_other :: "(string \<times> json) list"

record symbolSpecification =
  sp_symbol :: string
  sp_digits :: int
  sp_tickSize :: jsnum
  sp_other :: "(string \<times> json) list"

record price =
  pr_symbol :: string
  pr_bid :: jsnum
  pr_ask :: jsnum
  pr_profitTickValue :: jsnum
  pr_lossTickValue :: jsnum
  pr_time :: number

record accountInformation =
  ai_platform :: string
  ai_balance :: jsnum
  ai_equity :: jsnum
  ai_margin :: jsnum
  ai_freeMargin :: jsnum
  ai_marginLevel :: jsnum
  ai_other :: "(string \<times> json) list"

subsection \<open>The store\<close>

text \<open>
  Arrays and objects are shared between the per-instance states and the combined state
  (promotion assigns the instance's arrays to the combined state, and an updated position is
  pushed as the same object into both), and they are mutated in place. The store maps the
  address of every such array or object to its content.
\<close>

type_synonym addr = nat

record store =
  accObj :: "addr \<Rightarrow> accountInformation"
  posObj :: "addr \<Rightarrow> position"
  ordObj :: "addr \<Rightarrow> order"
  posArr :: "addr \<Rightarrow> addr list"
  ordArr :: "addr \<Rightarrow> addr list"
  specDict :: "addr \<Rightarrow> (string \<times> symbolSpecification) list"
  nextAddr :: addr

text \<open>\<open>[]\<close> and \<open>{}\<close> and \<open>filter\<close> create a new array or object.\<close>

definition new_posArr :: "addr list \<Rightarrow> store \<Rightarrow> addr \<times> store" where
  "new_posArr xs h =
     (nextAddr h, h\<lparr>posArr := (posArr h)(nextAddr h := xs), nextAddr := Suc (nextAddr h)\<rparr>)"

definition new_ordArr :: "addr list \<Rightarrow> store \<Rightarrow> addr \<times> store" where
  "new_ordArr xs h =
     (nextAddr h, h\<lparr>ordArr := (ordArr h)(nextAddr h := xs), nextAddr := Suc (nextAddr h)\<rparr>)"

definition new_specDict :: "store \<Rightarrow> addr \<times> store" where
  "new_specDict h =
     (nextAddr h, h\<lparr>specDict := (specDict h)(nextAddr h := []), nextAddr := Suc (nextAddr h)\<rparr>)"

subsection \<open>Terminal state\<close>

text \<open>
  One state object, per instance or combined. The tombstone maps, the prices and the flags
  belong to one state only; the account information, the arrays and the specifications are
  references into the store. A tombstone holds the value of \<open>Date.now()\<close>, in milliseconds.
\<close>

record state =
  instanceIndex :: "string option"
  connected :: bool
  connectedToBroker :: bool
  accountInformation :: "addr option"
  positions :: addr
  orders :: addr
  specificationsBySymbol :: addr
  pricesBySymbol :: "string \<rightharpoonup> price"
  completedOrders :: "string \<rightharpoonup> int"
  removedPositions :: "string \<rightharpoonup> int"
  ordersInitialized :: bool
  positionsInitialized :: bool
  lastUpdateTime :: number

record terminalState =
  stateByInstanceIndex :: "string \<rightharpoonup> state"
  combinedState :: state
  heap :: store

text \<open>The fields of a new state, \<open>_constructTerminalState\<close> and the constructor alike.\<close>

definition emptyState :: "string option \<Rightarrow> store \<Rightarrow> state \<times> store" where
  "emptyState idx h =
     (let (ps, h1) = new_posArr [] h;
          (os, h2) = new_ordArr [] h1;
          (ss, h3) = new_specDict h2
      in (\<lparr>instanceIndex = idx, connected = False, connectedToBroker = False,
            accountInformation = None, positions = ps, orders = os,
            specificationsBySymbol = ss, pricesBySymbol = Map.empty,
            completedOrders = Map.empty, removedPositions = Map.empty,
            ordersInitialized = False, positionsInitialized = False,
            lastUpdateTime = Fin 0\<rparr>, h3))"

definition constructTerminalState :: "string \<Rightarrow> store \<Rightarrow> state \<times> store" where
  "constructTerminalState idx h = emptyState (Some idx) h"

text \<open>The store before anything is allocated.\<close>

definition emptyStore :: store where
  "emptyStore =
     \<lparr>accObj = (\<lambda>_. \<lparr>ai_platform = [], ai_balance = None, ai_equity = None, ai_margin = None,
                     ai_freeMargin = None, ai_marginLevel = None, ai_other = []\<rparr>),
      posObj = (\<lambda>_. \<lparr>p_id = [], p_type = [], p_symbol = [], p_openPrice = None,
                     p_volume = None, p_swap = None, p_commission = None, p_profit = None,
                     p_unrealizedProfit = None, p_realizedProfit = None,
                     p_currentPrice = None, p_currentTickValue = None, p_other = []\<rparr>),
      ordObj = (\<lambda>_. \<lparr>o_id = [], o_type = [], o_symbol = [], o_currentPrice = None,
                     o_other = []\<rparr>),
      posArr = (\<lambda>_. []), ordArr = (\<lambda>_. []), specDict = (\<lambda>_. []), nextAddr = 0\<rparr>"

text \<open>The constructor of \<open>TerminalState\<close>.\<close>

definition constructor :: terminalState where
  "constructor =
     (let (c, h) = emptyState None emptyStore
      in \<lparr>stateByInstanceIndex = Map.empty, combinedState = c, heap = h\<rparr>)"

text \<open>\<open>_getState\<close>: the state of the instance, created on first use.\<close>

definition getState :: "string \<Rightarrow> terminalState \<Rightarrow> state \<times> terminalState" where
  "getState idx ts =
     (case stateByInstanceIndex ts idx of
        Some s \<Rightarrow> (s, ts)
      | None \<Rightarrow>
          (let (s, h) = constructTerminalState idx (heap ts)
           in (s, ts\<lparr>stateByInstanceIndex := (stateByInstanceIndex ts)(idx \<mapsto> s), heap := h\<rparr>)))"

text \<open>Writing back the fields assigned on the state object of an instance.\<close>

definition putState :: "string \<Rightarrow> state \<Rightarrow> terminalState \<Rightarrow> terminalState" where
  "putState idx s ts = ts\<lparr>stateByInstanceIndex := (stateByInstanceIndex ts)(idx \<mapsto> s)\<rparr>"

section \<open>The listener callbacks\<close>

subsection \<open>Connection and synchronization\<close>





text \<open>The account information is an object of the caller, given by its address.\<close>

definition onAccountInformationUpdated :: "string \<Rightarrow> addr \<Rightarrow> terminalState \<Rightarrow> terminalState" where
  "onAccountInformationUpdated idx accountInformation' ts =
     (let (s, ts1) = getState idx ts;
          ts2 = putState idx (s\<lparr>accountInformation := Some accountInformation'\<rparr>) ts1
      in ts2\<lparr>combinedState :=
               (combinedState ts2)\<lparr>accountInformation := Some accountInformation'\<rparr>\<rparr>)"




text \<open>Promotion: the fields of the instance's state are assigned to the combined state.\<close>

definition onPendingOrdersSynchronized :: "string \<Rightarrow> string \<Rightarrow> terminalState \<Rightarrow> terminalState" where
  "onPendingOrdersSynchronized idx synchronizationId ts =
     (let (s, ts1) = getState idx ts;
          s1 = s\<lparr>completedOrders := Map.empty, positionsInitialized := True,
                 ordersInitialized := True\<rparr>;
          ts2 = putState idx s1 ts1
      in ts2\<lparr>combinedState :=
               (combinedState ts2)\<lparr>accountInformation := accountInformation s1,
                  positions := positions s1, orders := orders s1,
                  specificationsBySymbol := specificationsBySymbol s1,
                  positionsInitialized := True, ordersInitialized := True,
                  completedOrders := Map.empty, removedPositions := Map.empty\<rparr>\<rparr>)"


subsection \<open>Positions\<close>

text \<open>\<open>findIndex\<close>, with \<open>None\<close> for -1.\<close>

fun findIndex :: "('a \<Rightarrow> bool) \<Rightarrow> 'a list \<Rightarrow> nat option" where
  "findIndex P [] = None"
| "findIndex P (x # xs) = (if P x then Some 0 else map_option Suc (findIndex P xs))"

text \<open>
  \<open>!m[k]\<close> on a tombstone map: the entry is missing, or its timestamp is the falsy 0.
\<close>

definition noTombstone :: "(string \<rightharpoonup> int) \<Rightarrow> string \<Rightarrow> bool" where
  "noTombstone m k = (case m k of None \<Rightarrow> True | Some t \<Rightarrow> t = 0)"

text \<open>
  The closure \<open>updatePosition\<close> of \<open>onPositionUpdated\<close>, applied to one state. It writes
  the array of the state in place and no field of the state.
\<close>

definition updatePosition :: "addr \<Rightarrow> state \<Rightarrow> store \<Rightarrow> store" where
  "updatePosition position' s h =
     (let arr = posArr h (positions s)
      in case findIndex (\<lambda>p. p_id (posObj h p) = p_id (posObj h position')) arr of
           Some index \<Rightarrow> h\<lparr>posArr := (posArr h)(positions s := arr[index := position'])\<rparr>
         | None \<Rightarrow>
             if noTombstone (removedPositions s) (p_id (posObj h position'))
             then h\<lparr>posArr := (posArr h)(positions s := arr @ [position'])\<rparr>
             else h)"

definition onPositionUpdated :: "string \<Rightarrow> addr \<Rightarrow> terminalState \<Rightarrow> terminalState" where
  "onPositionUpdated idx position' ts =
     (let (instanceState, ts1) = getState idx ts;
          h1 = updatePosition position' instanceState (heap ts1);
          h2 = updatePosition position' (combinedState ts1) h1
      in ts1\<lparr>heap := h2\<rparr>)"

text \<open>
  The eviction loop of a tombstone map: every entry older than five minutes at the clock
  reading \<open>now\<close> is deleted. One reading of \<open>Date.now()\<close> stands for the readings of one
  run of the closure.
\<close>

definition evict :: "int \<Rightarrow> (string \<rightharpoonup> int) \<Rightarrow> (string \<rightharpoonup> int)" where
  "evict now m =
     (\<lambda>k. case m k of None \<Rightarrow> None
               | Some t \<Rightarrow> if t + 5 * 60 * 1000 < now then None else Some t)"

text \<open>The closure \<open>removePosition\<close> of \<open>onPositionRemoved\<close>, applied to one state.\<close>

definition removePosition :: "int \<Rightarrow> string \<Rightarrow> state \<Rightarrow> store \<Rightarrow> state \<times> store" where
  "removePosition now positionId s h =
     (case find (\<lambda>p. p_id (posObj h p) = positionId) (posArr h (positions s)) of
        None \<Rightarrow> (s\<lparr>removedPositions := (evict now (removedPositions s))(positionId \<mapsto> now)\<rparr>, h)
      | Some _ \<Rightarrow>
          (let (a, h') = new_posArr
                 (filter (\<lambda>p. p_id (posObj h p) \<noteq> positionId) (posArr h (positions s))) h
           in (s\<lparr>positions := a\<rparr>, h')))"

text \<open>\<open>now1\<close> and \<open>now2\<close> are the clock readings of the two runs of the closure.\<close>

definition onPositionRemoved ::
  "int \<Rightarrow> int \<Rightarrow> string \<Rightarrow> string \<Rightarrow> terminalState \<Rightarrow> terminalState" where
  "onPositionRemoved now1 now2 idx positionId ts =
     (let (instanceState, ts1) = getState idx ts;
          (s', h1) = removePosition now1 positionId instanceState (heap ts1);
          (c', h2) = removePosition now2 positionId (combinedState ts1) h1
      in (putState idx s' ts1)\<lparr>combinedState := c', heap := h2\<rparr>)"

subsection \<open>Pending orders\<close>

definition updatePendingOrder :: "addr \<Rightarrow> state \<Rightarrow> store \<Rightarrow> store" where
  "updatePendingOrder order' s h =
     (let arr = ordArr h (orders s)
      in case findIndex (\<lambda>ord. o_id (ordObj h ord) = o_id (ordObj h order')) arr of
           Some index \<Rightarrow> h\<lparr>ordArr := (ordArr h)(orders s := arr[index := order'])\<rparr>
         | None \<Rightarrow>
             if noTombstone (completedOrders s) (o_id (ordObj h order'))
             then h\<lparr>ordArr := (ordArr h)(orders s := arr @ [order'])\<rparr>
             else h)"

definition onPendingOrderUpdated :: "string \<Rightarrow> addr \<Rightarrow> terminalState \<Rightarrow> terminalState" where
  "onPendingOrderUpdated idx order' ts =
     (let (instanceState, ts1) = getState idx ts;
          h1 = updatePendingOrder order' instanceState (heap ts1);
          h2 = updatePendingOrder order' (combinedState ts1) h1
      in ts1\<lparr>heap := h2\<rparr>)"

definition completeOrder :: "int \<Rightarrow> string \<Rightarrow> state \<Rightarrow> store \<Rightarrow> state \<times> store" where
  "completeOrder now orderId s h =
     (case find (\<lambda>ord. o_id (ordObj h ord) = orderId) (ordArr h (orders s)) of
        None \<Rightarrow> (s\<lparr>completedOrders := (evict now (completedOrders s))(orderId \<mapsto> now)\<rparr>, h)
      | Some _ \<Rightarrow>
          (let (a, h') = new_ordArr
                 (filter (\<lambda>ord. o_id (ordObj h ord) \<noteq> orderId) (ordArr h (orders s))) h
           in (s\<lparr>orders := a\<rparr>, h')))"

definition onPendingOrderCompleted ::
  "int \<Rightarrow> int \<Rightarrow> string \<Rightarrow> string \<Rightarrow> terminalState \<Rightarrow> terminalState" where
  "onPendingOrderCompleted now1 now2 idx orderId ts =
     (let (instanceState, ts1) = getState idx ts;
          (s', h1) = completeOrder now1 orderId instanceState (heap ts1);
          (c', h2) = completeOrder now2 orderId (combinedState ts1) h1
      in (putState idx s' ts1)\<lparr>combinedState := c', heap := h2\<rparr>)"

subsection \<open>Specifications\<close>

text \<open>
  An assignment to a property keeps the place of an existing key and appends a new one, as
  \<open>AList.update\<close> does.
\<close>

definition updateSpecifications ::
  "symbolSpecification list \<Rightarrow> string list \<Rightarrow> state \<Rightarrow> store \<Rightarrow> store" where
  "updateSpecifications specifications removedSymbols s h =
     (let d1 = fold (\<lambda>sp d. AList.update (sp_symbol sp) sp d) specifications
                 (specDict h (specificationsBySymbol s));
          d2 = fold (\<lambda>symbol d. AList.delete symbol d) removedSymbols d1
      in h\<lparr>specDict := (specDict h)(specificationsBySymbol s := d2)\<rparr>)"

definition onSymbolSpecificationsUpdated ::
  "string \<Rightarrow> symbolSpecification list \<Rightarrow> string list \<Rightarrow> terminalState \<Rightarrow> terminalState" where
  "onSymbolSpecificationsUpdated idx specifications removedSymbols ts =
     (let (instanceState, ts1) = getState idx ts;
          h1 = updateSpecifications specifications removedSymbols instanceState (heap ts1);
          h2 = updateSpecifications specifications removedSymbols (combinedState ts1) h1
      in ts1\<lparr>heap := h2\<rparr>)"

subsection \<open>Prices\<close>

text \<open>\<open>position.type === 'POSITION_TYPE_BUY' ? 1 : -1\<close>.\<close>

definition direction :: "string \<Rightarrow> number" where
  "direction t = (if t = ''POSITION_TYPE_BUY'' then Fin 1 else Fin (- 1))"

text \<open>\<open>d * (price - openPrice) * tickValue * volume / tickSize\<close>.\<close>

definition profitOf :: "number \<Rightarrow> jsnum \<Rightarrow> jsnum \<Rightarrow> jsnum \<Rightarrow> jsnum \<Rightarrow> jsnum \<Rightarrow> number" where
  "profitOf d price' openPrice tickValue volume tickSize =
     num_div
       (num_mul (num_mul (num_mul d (num_sub (toNumber price') (toNumber openPrice)))
          (toNumber tickValue)) (toNumber volume))
       (toNumber tickSize)"

text \<open>\<open>Math.round(x * multiplier) / multiplier\<close>.\<close>

definition roundTo :: "number \<Rightarrow> number \<Rightarrow> number" where
  "roundTo multiplier x = num_div (math_round (num_mul x multiplier)) multiplier"

text \<open>
  \<open>_updatePositionProfits\<close>. The specification comes from the getter
  \<open>specification(symbol)\<close>, which reads the dictionary of the combined state: \<open>cs\<close> is the
  address of that dictionary.
\<close>

definition updatePositionProfits :: "addr \<Rightarrow> addr \<Rightarrow> price \<Rightarrow> store \<Rightarrow> store" where
  "updatePositionProfits cs position' pr h =
     (let p = posObj h position'
      in case map_of (specDict h cs) (p_symbol p) of
           None \<Rightarrow> h
         | Some specification' \<Rightarrow>
             (let multiplier = pow10 (sp_digits specification');
                  d = direction (p_type p);
                  p1 = (if p_profit p \<noteq> None
                        then p\<lparr>p_profit := Some (roundTo multiplier (toNumber (p_profit p)))\<rparr>
                        else p);
                  p2 = (if p_unrealizedProfit p1 = None \<or> p_realizedProfit p1 = None
                        then (let u = roundTo multiplier
                                    (profitOf d (p_currentPrice p1) (p_openPrice p1)
                                       (p_currentTickValue p1) (p_volume p1)
                                       (sp_tickSize specification'))
                              in p1\<lparr>p_unrealizedProfit := Some u,
                                    p_realizedProfit := Some (num_sub (toNumber (p_profit p1)) u)\<rparr>)
                        else p1);
                  newPositionPrice =
                    (if p_type p2 = ''POSITION_TYPE_BUY'' then pr_bid pr else pr_ask pr);
                  isProfitable =
                    num_mul d (num_sub (toNumber newPositionPrice) (toNumber (p_openPrice p2)));
                  currentTickValue =
                    (if num_pos isProfitable then pr_profitTickValue pr else pr_lossTickValue pr);
                  unrealizedProfit = roundTo multiplier
                    (profitOf d newPositionPrice (p_openPrice p2) currentTickValue (p_volume p2)
                       (sp_tickSize specification'));
                  profit = roundTo multiplier
                    (num_add unrealizedProfit (toNumber (p_realizedProfit p2)))
              in h\<lparr>posObj := (posObj h)(position' :=
                     p2\<lparr>p_unrealizedProfit := Some unrealizedProfit, p_profit := Some profit,
                        p_currentPrice := newPositionPrice,
                        p_currentTickValue := currentTickValue\<rparr>)\<rparr>))"

text \<open>The loop over the positions of the other symbols, with the flag \<open>pricesInitialized\<close>.\<close>

fun updateOtherPositions ::
  "addr \<Rightarrow> (string \<rightharpoonup> price) \<Rightarrow> addr list \<Rightarrow> bool \<times> store \<Rightarrow> bool \<times> store" where
  "updateOtherPositions cs pbs [] (pricesInitialized, h) = (pricesInitialized, h)"
| "updateOtherPositions cs pbs (a # as) (pricesInitialized, h) =
     (case pbs (p_symbol (posObj h a)) of
        Some p \<Rightarrow>
          updateOtherPositions cs pbs as
            (pricesInitialized,
             if p_unrealizedProfit (posObj h a) = None then updatePositionProfits cs a p h else h)
      | None \<Rightarrow> updateOtherPositions cs pbs as (False, h))"

definition buyOrder :: "string \<Rightarrow> bool" where
  "buyOrder t = (t = ''ORDER_TYPE_BUY'' \<or> t = ''ORDER_TYPE_BUY_LIMIT'' \<or>
                 t = ''ORDER_TYPE_BUY_STOP'' \<or> t = ''ORDER_TYPE_BUY_STOP_LIMIT'')"

definition updateOrderPrice :: "price \<Rightarrow> addr \<Rightarrow> store \<Rightarrow> store" where
  "updateOrderPrice pr a h =
     h\<lparr>ordObj := (ordObj h)(a := (ordObj h a)\<lparr>o_currentPrice :=
          (if buyOrder (o_type (ordObj h a)) then pr_ask pr else pr_bid pr)\<rparr>)\<rparr>"

text \<open>
  The body of the loop over the prices. The promises of \<open>waitForPrice\<close> that it resolves
  are not part of the stored state and are left out.
\<close>

definition priceStep ::
  "addr \<Rightarrow> state \<Rightarrow> price \<Rightarrow> (string \<rightharpoonup> price) \<times> bool \<times> store
     \<Rightarrow> (string \<rightharpoonup> price) \<times> bool \<times> store" where
  "priceStep cs s pr acc =
     (case acc of (pbs0, _, h) \<Rightarrow>
        (let pbs = pbs0(pr_symbol pr \<mapsto> pr);
             positions' = filter (\<lambda>p. p_symbol (posObj h p) = pr_symbol pr) (posArr h (positions s));
             otherPositions =
               filter (\<lambda>p. p_symbol (posObj h p) \<noteq> pr_symbol pr) (posArr h (positions s));
             orders' = filter (\<lambda>x. o_symbol (ordObj h x) = pr_symbol pr) (ordArr h (orders s));
             (pricesInitialized, h1) = updateOtherPositions cs pbs otherPositions (True, h);
             h2 = fold (\<lambda>a. updatePositionProfits cs a pr) positions' h1;
             h3 = fold (updateOrderPrice pr) orders' h2
         in (pbs, pricesInitialized, h3)))"

text \<open>The two \<open>reduce\<close> calls over the positions.\<close>

definition sumMt5 :: "position list \<Rightarrow> number" where
  "sumMt5 ps =
     foldl (\<lambda>acc p. num_add (num_add acc (round2 (or_zero (p_unrealizedProfit p))))
                       (round2 (or_zero (p_swap p)))) (Fin 0) ps"

definition sumOther :: "position list \<Rightarrow> number" where
  "sumOther ps =
     foldl (\<lambda>acc p. num_add (num_add (num_add acc (round2 (or_zero (p_swap p))))
                       (round2 (or_zero (p_commission p))))
                       (round2 (or_zero (p_unrealizedProfit p)))) (Fin 0) ps"

text \<open>The part of \<open>updateSymbolPrices\<close> under \<open>if (state.accountInformation)\<close>.\<close>

definition updateAccount ::
  "state \<Rightarrow> bool \<Rightarrow> jsnum \<Rightarrow> jsnum \<Rightarrow> jsnum \<Rightarrow> jsnum \<Rightarrow> store \<Rightarrow> store" where
  "updateAccount s pricesInitialized equity margin freeMargin marginLevel h =
     (case accountInformation s of
        None \<Rightarrow> h
      | Some a \<Rightarrow>
          (let ai = accObj h a;
               ps = map (posObj h) (posArr h (positions s));
               equity' =
                 (if positionsInitialized s \<and> pricesInitialized
                  then Some (round2
                    (if ai_platform ai = ''mt5''
                     then (case equity of Some e \<Rightarrow> e
                           | None \<Rightarrow> num_add (toNumber (ai_balance ai)) (sumMt5 ps))
                     else (case equity of Some e \<Rightarrow> e
                           | None \<Rightarrow> num_add (toNumber (ai_balance ai)) (sumOther ps))))
                  else (case equity of Some e \<Rightarrow> Some e | None \<Rightarrow> ai_equity ai))
           in h\<lparr>accObj := (accObj h)(a := ai\<lparr>
                  ai_equity := equity',
                  ai_margin := (if margin \<noteq> None then margin else ai_margin ai),
                  ai_freeMargin := (if freeMargin \<noteq> None then freeMargin else ai_freeMargin ai),
                  ai_marginLevel :=
                    (if freeMargin \<noteq> None then marginLevel else ai_marginLevel ai)\<rparr>)\<rparr>))"

text \<open>
  The closure \<open>updateSymbolPrices\<close> of \<open>onSymbolPricesUpdated\<close>, applied to one state;
  \<open>pr_time\<close> is the value of \<open>p.time.getTime()\<close>.
\<close>

definition updateSymbolPrices ::
  "addr \<Rightarrow> price list \<Rightarrow> jsnum \<Rightarrow> jsnum \<Rightarrow> jsnum \<Rightarrow> jsnum \<Rightarrow> state \<Rightarrow> store
     \<Rightarrow> state \<times> store" where
  "updateSymbolPrices cs prices equity margin freeMargin marginLevel s h =
     (let s1 = s\<lparr>lastUpdateTime := math_max_of_array (map pr_time prices)\<rparr>;
          (pbs, pricesInitialized, h1) =
            fold (priceStep cs s1) prices (pricesBySymbol s1, False, h);
          s2 = s1\<lparr>pricesBySymbol := pbs\<rparr>
      in (s2, updateAccount s2 pricesInitialized equity margin freeMargin marginLevel h1))"

definition onSymbolPricesUpdated ::
  "string \<Rightarrow> price list \<Rightarrow> jsnum \<Rightarrow> jsnum \<Rightarrow> jsnum \<Rightarrow> jsnum \<Rightarrow> terminalState
     \<Rightarrow> terminalState" where
  "onSymbolPricesUpdated idx prices equity margin freeMargin marginLevel ts =
     (let (instanceState, ts1) = getState idx ts;
          cs = specificationsBySymbol (combinedState ts1);
          (s', h1) = updateSymbolPrices cs prices equity margin freeMargin marginLevel
                       instanceState (heap ts1);
          (c', h2) = updateSymbolPrices cs prices equity margin freeMargin marginLevel
                       (combinedState ts1) h1
      in (putState idx s' ts1)\<lparr>combinedState := c', heap := h2\<rparr>)"

section \<open>Hashes\<close>

subsection \<open>The JSON form of the objects\<close>

text \<open>
  \<open>JSON.parse(JSON.stringify(x))\<close> of a number: a finite number stays, \<open>NaN\<close> and the
  infinities become \<open>null\<close>. A property that is \<open>undefined\<close> is left out.
\<close>

fun num_json :: "number \<Rightarrow> json" where
  "num_json (Fin x) = JNum x"
| "num_json _ = JNull"

definition numProp :: "string \<Rightarrow> jsnum \<Rightarrow> (string \<times> json) list" where
  "numProp k v = (case v of None \<Rightarrow> [] | Some x \<Rightarrow> [(k, num_json x)])"

text \<open>
  The clones of a specification, a position and an order: the properties in the order of
  the fields, the remaining properties after them.
\<close>

definition specification_json :: "symbolSpecification \<Rightarrow> (string \<times> json) list" where
  "specification_json sp =
     [(''symbol'', JStr (sp_symbol sp)), (''digits'', JNum (of_int (sp_digits sp)))] @
     numProp ''tickSize'' (sp_tickSize sp) @ sp_other sp"

definition position_json :: "position \<Rightarrow> (string \<times> json) list" where
  "position_json p =
     [(''id'', JStr (p_id p)), (''type'', JStr (p_type p)), (''symbol'', JStr (p_symbol p))] @
     numProp ''openPrice'' (p_openPrice p) @ numProp ''volume'' (p_volume p) @
     numProp ''swap'' (p_swap p) @ numProp ''commission'' (p_commission p) @
     numProp ''profit'' (p_profit p) @ numProp ''unrealizedProfit'' (p_unrealizedProfit p) @
     numProp ''realizedProfit'' (p_realizedProfit p) @
     numProp ''currentPrice'' (p_currentPrice p) @
     numProp ''currentTickValue'' (p_currentTickValue p) @ p_other p"

definition order_json :: "order \<Rightarrow> (string \<times> json) list" where
  "order_json x =
     [(''id'', JStr (o_id x)), (''type'', JStr (o_type x)), (''symbol'', JStr (o_symbol x))] @
     numProp ''currentPrice'' (o_currentPrice x) @ o_other x"

subsection \<open>Sorting\<close>

text \<open>
  \<open><\<close> on two property values. Two strings are compared by their code units and two
  numbers by their values; a comparison with \<open>undefined\<close> is false. The keys compared here
  are ids and symbols, which are strings: the other combinations of types do not occur and
  count as false.
\<close>

fun js_less :: "json option \<Rightarrow> json option \<Rightarrow> bool" where
  "js_less (Some (JStr a)) (Some (JStr b)) = (a < b)"
| "js_less (Some (JNum a)) (Some (JNum b)) = (a < b)"
| "js_less _ _ = False"

definition sortByKey :: "string \<Rightarrow> (string \<times> json) list \<Rightarrow> (string \<times> json) list \<Rightarrow> int" where
  "sortByKey key obj1 obj2 =
     (if js_less (map_of obj1 key) (map_of obj2 key) then - 1
      else if js_less (map_of obj2 key) (map_of obj1 key) then 1
      else 0)"

text \<open>
  \<open>Array.prototype.sort\<close> with a comparison function, as a stable insertion sort: elements
  that compare equal keep their order.
\<close>

fun insort_by :: "('a \<Rightarrow> 'a \<Rightarrow> int) \<Rightarrow> 'a \<Rightarrow> 'a list \<Rightarrow> 'a list" where
  "insort_by cmp x [] = [x]"
| "insort_by cmp x (y # ys) = (if cmp x y \<le> 0 then x # y # ys else y # insort_by cmp x ys)"

definition sort_by :: "('a \<Rightarrow> 'a \<Rightarrow> int) \<Rightarrow> 'a list \<Rightarrow> 'a list" where
  "sort_by cmp xs = foldr (insort_by cmp) xs []"

subsection \<open>Serialization\<close>

datatype error = TypeError

text \<open>The decimal digits of a natural number.\<close>

fun digits :: "nat \<Rightarrow> string" where
  "digits n = (if n < 10 then [''0123456789'' ! n]
               else digits (n div 10) @ [''0123456789'' ! (n mod 10)])"

declare digits.simps [simp del]

text \<open>
  \<open>Number.prototype.toString\<close>. An integer below \<open>10^21\<close> in magnitude is written in
  decimal digits. The shortest decimal that reads back as the same double, which every other
  number gets, is a matter of the binary representation: \<open>ns\<close> stands for that part.
\<close>

definition number_toString :: "(rat \<Rightarrow> string) \<Rightarrow> rat \<Rightarrow> string" where
  "number_toString ns x =
     (if of_int \<lfloor>x\<rfloor> = x \<and> \<bar>x\<bar> < 10 ^ 21
      then (if x < 0 then ''-'' else []) @ digits (nat \<bar>\<lfloor>x\<rfloor>\<bar>)
      else ns x)"

text \<open>
  \<open>toFixed(8)\<close>: the nearest multiple of \<open>10^-8\<close>, a tie going away from zero, written
  with at least one digit before the point and eight after it; a negative number keeps its
  sign even when it rounds to zero. From \<open>10^21\<close> on the result is that of \<open>toString\<close>.
\<close>

definition toFixed8 :: "(rat \<Rightarrow> string) \<Rightarrow> rat \<Rightarrow> string" where
  "toFixed8 ns x =
     (if \<bar>x\<bar> < 10 ^ 21
      then (let n = nat \<lfloor>\<bar>x\<bar> * 10 ^ 8 + 1 / 2\<rfloor>;
                m = digits n;
                m' = replicate (9 - length m) CHR ''0'' @ m
            in (if x < 0 then ''-'' else []) @
               take (length m' - 8) m' @ ''.'' @ drop (length m' - 8) m')
      else number_toString ns x)"

text \<open>\<open>join\<close> of an array of strings.\<close>

fun join :: "string \<Rightarrow> string list \<Rightarrow> string" where
  "join sep [] = []"
| "join sep [x] = x"
| "join sep (x # y # ys) = x @ sep @ join sep (y # ys)"

text \<open>The results of a \<open>map\<close> whose function may throw: the first error, or all values.\<close>

fun collect :: "(error + 'a) list \<Rightarrow> error + 'a list" where
  "collect [] = Inr []"
| "collect (Inl e # _) = Inl e"
| "collect (Inr x # rs) = (case collect rs of Inl e \<Rightarrow> Inl e | Inr xs \<Rightarrow> Inr (x # xs))"

text \<open>
  \<open>JSON.stringify\<close> of a string: in double quotes, with the quote, the backslash and the
  control characters escaped.
\<close>

definition hex4 :: "nat \<Rightarrow> string" where
  "hex4 n = ''00'' @ [''0123456789abcdef'' ! (n div 16), ''0123456789abcdef'' ! (n mod 16)]"

definition escape_char :: "char \<Rightarrow> string" where
  "escape_char c =
     (if c = CHR 0x22 then [CHR 0x5C, CHR 0x22]
      else if c = CHR 0x5C then [CHR 0x5C, CHR 0x5C]
      else if c = CHR 0x08 then [CHR 0x5C, CHR ''b'']
      else if c = CHR 0x0C then [CHR 0x5C, CHR ''f'']
      else if c = CHR 0x0A then [CHR 0x5C, CHR ''n'']
      else if c = CHR 0x0D then [CHR 0x5C, CHR ''r'']
      else if c = CHR 0x09 then [CHR 0x5C, CHR ''t'']
      else if (of_char c :: nat) < 32 then [CHR 0x5C, CHR ''u''] @ hex4 (of_char c)
      else [c])"

definition json_quote :: "string \<Rightarrow> string" where
  "json_quote s = [CHR 0x22] @ concat (map escape_char s) @ [CHR 0x22]"

text \<open>
  The function \<open>stringify\<close> of \<open>_getHash\<close> for cloud-g1. The second argument of the source
  is the key under which the value stands, \<open>undefined\<close> for the elements of an array. On
  \<open>null\<close> the test \<open>objFromJson.getTime\<close> throws a \<open>TypeError\<close>. The key of a property is
  written between quotes as it is.
\<close>

fun stringify :: "(rat \<Rightarrow> string) \<Rightarrow> string list \<Rightarrow> json \<Rightarrow> string option \<Rightarrow> error + string" where
  "stringify ns integerKeys (JNum x) key =
     Inr (if key \<in> Some ` set integerKeys then number_toString ns x else toFixed8 ns x)"
| "stringify ns integerKeys (JArr xs) key =
     (case collect (map (\<lambda>item. stringify ns integerKeys item None) xs) of
        Inl e \<Rightarrow> Inl e
      | Inr rs \<Rightarrow> Inr (''['' @ join '','' rs @ '']''))"
| "stringify ns integerKeys JNull key = Inl TypeError"
| "stringify ns integerKeys (JBool b) key = Inr (if b then ''true'' else ''false'')"
| "stringify ns integerKeys (JStr s) key = Inr (json_quote s)"
| "stringify ns integerKeys (JObj props) key =
     (case collect (map (\<lambda>(keyItem, v).
             case stringify ns integerKeys v (Some keyItem) of
               Inl e \<Rightarrow> Inl e
             | Inr r \<Rightarrow> Inr ([CHR 0x22] @ keyItem @ [CHR 0x22] @ '':'' @ r)) props) of
        Inl e \<Rightarrow> Inl e
      | Inr rs \<Rightarrow> Inr (''{'' @ join '','' rs @ ''}''))"

text \<open>\<open>JSON.stringify\<close>, for cloud-g2.\<close>

fun json_stringify :: "(rat \<Rightarrow> string) \<Rightarrow> json \<Rightarrow> string" where
  "json_stringify ns JNull = ''null''"
| "json_stringify ns (JBool b) = (if b then ''true'' else ''false'')"
| "json_stringify ns (JNum x) = number_toString ns x"
| "json_stringify ns (JStr s) = json_quote s"
| "json_stringify ns (JArr xs) = ''['' @ join '','' (map (json_stringify ns) xs) @ '']''"
| "json_stringify ns (JObj props) =
     ''{'' @ join '','' (map (\<lambda>(k, v). json_quote k @ '':'' @ json_stringify ns v) props) @ ''}''"

text \<open>
  \<open>_getHash\<close>. The digest \<open>crypto.MD5\<close> of the library is the parameter \<open>md5\<close>.
\<close>

definition getHash ::
  "(string \<Rightarrow> string) \<Rightarrow> (rat \<Rightarrow> string) \<Rightarrow> json \<Rightarrow> string \<Rightarrow> string list \<Rightarrow> error + string" where
  "getHash md5 ns obj accountType integerKeys =
     (if accountType = ''cloud-g1''
      then (case stringify ns integerKeys obj None of
              Inl e \<Rightarrow> Inl e
            | Inr jsonItem \<Rightarrow> Inr (md5 jsonItem))
      else if accountType = ''cloud-g2'' then Inr (md5 (json_stringify ns obj))
      else Inr (md5 []))"

subsection \<open>getHashes\<close>

record hashes =
  specificationsMd5 :: "string option"
  positionsMd5 :: "string option"
  ordersMd5 :: "string option"

definition deleteKeys :: "string list \<Rightarrow> (string \<times> json) list \<Rightarrow> (string \<times> json) list" where
  "deleteKeys ks obj = fold AList.delete ks obj"

text \<open>The three collections of \<open>getHashes\<close>, cloned, sorted and stripped.\<close>

definition hashedSpecifications :: "string \<Rightarrow> state \<Rightarrow> store \<Rightarrow> (string \<times> json) list list" where
  "hashedSpecifications accountType s h =
     map (if accountType = ''cloud-g1'' then deleteKeys [''description''] else (\<lambda>x. x))
       (sort_by (sortByKey ''symbol'')
          (map (\<lambda>kv. specification_json (snd kv)) (specDict h (specificationsBySymbol s))))"

definition hashedPositions :: "string \<Rightarrow> state \<Rightarrow> store \<Rightarrow> (string \<times> json) list list" where
  "hashedPositions accountType s h =
     map (deleteKeys
            ([''profit'', ''unrealizedProfit'', ''realizedProfit'', ''currentPrice'',
              ''currentTickValue'', ''updateSequenceNumber'', ''accountCurrencyExchangeRate'',
              ''comment'', ''brokerComment'', ''clientId''] @
             (if accountType = ''cloud-g1'' then [''time'', ''updateTime''] else [])))
       (sort_by (sortByKey ''id'')
          (map (\<lambda>a. position_json (posObj h a)) (posArr h (positions s))))"

definition hashedOrders :: "string \<Rightarrow> state \<Rightarrow> store \<Rightarrow> (string \<times> json) list list" where
  "hashedOrders accountType s h =
     map (deleteKeys
            ([''currentPrice'', ''updateSequenceNumber'', ''accountCurrencyExchangeRate'',
              ''comment'', ''brokerComment'', ''clientId''] @
             (if accountType = ''cloud-g1'' then [''time''] else [])))
       (sort_by (sortByKey ''id'')
          (map (\<lambda>a. order_json (ordObj h a)) (ordArr h (orders s))))"

text \<open>The body of \<open>getHashes\<close> after the state has been fetched.\<close>

definition hashesOf ::
  "(string \<Rightarrow> string) \<Rightarrow> (rat \<Rightarrow> string) \<Rightarrow> string \<Rightarrow> state \<Rightarrow> store \<Rightarrow> error + hashes" where
  "hashesOf md5 ns accountType s h =
     (let specifications = hashedSpecifications accountType s h;
          specificationsHash =
            (if specifications \<noteq> []
             then map_sum id Some
                    (getHash md5 ns (JArr (map JObj specifications)) accountType [''digits''])
             else Inr None);
          positionsHash =
            (if positionsInitialized s
             then map_sum id Some
                    (getHash md5 ns (JArr (map JObj (hashedPositions accountType s h)))
                       accountType [''magic''])
             else Inr None);
          ordersHash =
            (if ordersInitialized s
             then map_sum id Some
                    (getHash md5 ns (JArr (map JObj (hashedOrders accountType s h)))
                       accountType [''magic''])
             else Inr None)
      in case specificationsHash of
           Inl e \<Rightarrow> Inl e
         | Inr sh \<Rightarrow>
             (case positionsHash of
                Inl e \<Rightarrow> Inl e
              | Inr ph \<Rightarrow>
                  (case ordersHash of
                     Inl e \<Rightarrow> Inl e
                   | Inr oh \<Rightarrow>
                       Inr \<lparr>specificationsMd5 = sh, positionsMd5 = ph, ordersMd5 = oh\<rparr>)))"

text \<open>\<open>getHashes\<close>: the state of the instance is fetched, and created when missing.\<close>

definition getHashes ::
  "(string \<Rightarrow> string) \<Rightarrow> (rat \<Rightarrow> string) \<Rightarrow> string \<Rightarrow> string \<Rightarrow> terminalState
     \<Rightarrow> (error + hashes) \<times> terminalState" where
  "getHashes md5 ns accountType idx ts =
     (let (s, ts1) = getState idx ts in (hashesOf md5 ns accountType s (heap ts1), ts1))"

section \<open>The websocket client\<close>

text \<open>
  A packet of the server with its \<open>requestId\<close>, the \<open>error\<close> field that a
  \<open>processingError\<close> packet carries, and the rest of its content. A request as it is
  emitted on the socket.
\<close>

record packet =
  pk_requestId :: string
  pk_error :: string
  pk_content :: string

record request =
  rq_type :: string
  rq_accountId :: string
  rq_requestId :: string

text \<open>
  How a promise of \<open>_rpcRequest\<close> is settled: resolved with a \<open>response\<close> packet, rejected
  with the error made from a \<open>processingError\<close> packet, or rejected by \<open>close\<close>.
\<close>

datatype settlement = Resolved packet | RejectedWith packet | RejectedClosed

text \<open>
  The client: the flag \<open>_connected\<close> and the dictionary \<open>_requestResolves\<close>, which maps
  a request id to the promise waiting for the reply, a promise being known by its number.
  Three logs record what the client did: the promises returned with the request id attached
  to each, the requests emitted, and the calls of \<open>resolve\<close> and \<open>reject\<close>.
\<close>

record client =
  cl_connected :: bool
  requestResolves :: "(string \<times> nat) list"
  promises :: nat
  issued :: "(nat \<times> string) list"
  emitted :: "request list"
  settled :: "(nat \<times> settlement) list"



text \<open>\<open>close\<close> rejects every waiting promise and empties the dictionary.\<close>

definition close :: "client \<Rightarrow> client" where
  "close cl =
     (if cl_connected cl
      then cl\<lparr>cl_connected := False,
              settled := settled cl @ map (\<lambda>kv. (snd kv, RejectedClosed)) (requestResolves cl),
              requestResolves := []\<rparr>
      else cl)"







section \<open>The content of the combined state\<close>


text \<open>
  The arrays and the dictionary of the combined state exist already: their addresses are
  below the next address to be given out.
\<close>

definition combinedAllocated :: "terminalState \<Rightarrow> bool" where
  "combinedAllocated ts =
     (positions (combinedState ts) < nextAddr (heap ts) \<and>
      orders (combinedState ts) < nextAddr (heap ts) \<and>
      specificationsBySymbol (combinedState ts) < nextAddr (heap ts))"

section \<open>Example data\<close>

definition examplePrice :: price where
  "examplePrice =
     \<lparr>pr_symbol = ''EURUSD'', pr_bid = Some (Fin 1), pr_ask = Some (Fin 2),
      pr_profitTickValue = Some (Fin 1), pr_lossTickValue = Some (Fin 1), pr_time = Fin 1000\<rparr>"

definition exampleAccount :: accountInformation where
  "exampleAccount =
     \<lparr>ai_platform = ''mt5'', ai_balance = Some (Fin 10000), ai_equity = Some (Fin 10000),
      ai_margin = Some (Fin 50), ai_freeMargin = Some (Fin 9950),
      ai_marginLevel = Some (Fin 100), ai_other = []\<rparr>"

definition examplePosition :: "string \<Rightarrow> position" where
  "examplePosition i =
     \<lparr>p_id = i, p_type = ''POSITION_TYPE_BUY'', p_symbol = ''EURUSD'',
      p_openPrice = Some (Fin 1), p_volume = Some (Fin 1), p_swap = None, p_commission = None,
      p_profit = None, p_unrealizedProfit = None, p_realizedProfit = None,
      p_currentPrice = None, p_currentTickValue = None, p_other = []\<rparr>"

text \<open>An object of the caller, placed in the store at an address.\<close>

definition putAccount :: "addr \<Rightarrow> accountInformation \<Rightarrow> terminalState \<Rightarrow> terminalState" where
  "putAccount a ai ts = ts\<lparr>heap := (heap ts)\<lparr>accObj := (accObj (heap ts))(a := ai)\<rparr>\<rparr>"

definition putPosition :: "addr \<Rightarrow> position \<Rightarrow> terminalState \<Rightarrow> terminalState" where
  "putPosition a p ts = ts\<lparr>heap := (heap ts)\<lparr>posObj := (posObj (heap ts))(a := p)\<rparr>\<rparr>"



definition exampleSpecification :: symbolSpecification where
  "exampleSpecification =
     \<lparr>sp_symbol = ''EURUSD'', sp_digits = 5, sp_tickSize = Some (Fin (1 / 100000)),
      sp_other = [(''description'', JStr ''Euro vs US Dollar'')]\<rparr>"

text \<open>A synchronized state with an account at address 0 and the given arrays.\<close>

definition exampleState :: "addr \<Rightarrow> addr \<Rightarrow> addr \<Rightarrow> state" where
  "exampleState ps os ss =
     \<lparr>instanceIndex = None, connected = False, connectedToBroker = False,
      accountInformation = Some 0, positions = ps, orders = os,
      specificationsBySymbol = ss, pricesBySymbol = Map.empty,
      completedOrders = Map.empty, removedPositions = Map.empty,
      ordersInitialized = True, positionsInitialized = True, lastUpdateTime = Fin 0\<rparr>"

text \<open>
  Scenario S2: an mt5 account with balance 10000 and two positions in EURUSD, with swap -1
  and unrealized profit 25.123, and with swap -2 and unrealized profit -10. No
  specification is known, so a price leaves the profits as they are.
\<close>

definition storeS2 :: store where
  "storeS2 = emptyStore
     \<lparr>accObj := (accObj emptyStore)(0 := exampleAccount),
      posObj := (posObj emptyStore)
        (0 := (examplePosition ''1'')\<lparr>p_swap := Some (Fin (- 1)),
                 p_unrealizedProfit := Some (Fin (25123 / 1000))\<rparr>,
         1 := (examplePosition ''2'')\<lparr>p_swap := Some (Fin (- 2)),
                 p_unrealizedProfit := Some (Fin (- 10))\<rparr>),
      posArr := (posArr emptyStore)(0 := [0, 1]),
      nextAddr := 3\<rparr>"

text \<open>An mt5 account with balance 100.004 and no position.\<close>

definition storeBalance :: store where
  "storeBalance = emptyStore
     \<lparr>accObj := (accObj emptyStore)
        (0 := exampleAccount\<lparr>ai_balance := Some (Fin (100004 / 1000))\<rparr>),
      nextAddr := 3\<rparr>"

text \<open>
  Two replicas: the state of instance 0 has its own dictionary, at address 5, with the
  specification of EURUSD; the combined state has an empty dictionary, at address 2. Both
  hold the position object at address 0.
\<close>

definition scenarioReplicas :: terminalState where
  "scenarioReplicas =
     \<lparr>stateByInstanceIndex = [''0'' \<mapsto> exampleState 3 4 5],
      combinedState = exampleState 0 1 2,
      heap = emptyStore
        \<lparr>posObj := (posObj emptyStore)(0 := examplePosition ''42''),
         posArr := (posArr emptyStore)(0 := [0], 3 := [0]),
         specDict := (specDict emptyStore)(5 := [(''EURUSD'', exampleSpecification)]),
         nextAddr := 6\<rparr>\<rparr>"

text \<open>
  Position 42 is removed at clock reading 1000 while instance 0 synchronizes, and the
  instance is promoted afterwards.
\<close>

definition scenarioPromoted :: terminalState where
  "scenarioPromoted =
     onPendingOrdersSynchronized ''0'' ''sync''
       (onPositionRemoved 1000 1000 ''0'' ''42''
         (putPosition 0 (examplePosition ''42'') constructor))"

section \<open>Notions of the proofs\<close>


text \<open>The store of scenario S2 with the two positions in the other order.\<close>

definition storeS2_swapped :: store where
  "storeS2_swapped = storeS2\<lparr>posArr := (posArr storeS2)(0 := [1, 0])\<rparr>"




section \<open>Example events\<close>





text \<open>
  The sums of the equity in the words of the specification: a value rounded to two decimals,
  and the value of a property that is a finite number, or zero when it is missing or
  \<open>NaN\<close>.
\<close>

definition rounded2 :: "rat \<Rightarrow> rat" where
  "rounded2 x = of_int \<lfloor>x * 100 + 1 / 2\<rfloor> / 100"

fun finiteOrZero :: "jsnum \<Rightarrow> rat option" where
  "finiteOrZero None = Some 0"
| "finiteOrZero (Some NaN) = Some 0"
| "finiteOrZero (Some (Fin x)) = Some x"
| "finiteOrZero (Some _) = None"

section \<open>Properties\<close>

subsection \<open>Auxiliary facts\<close>

lemmas state_defs = getState_def putState_def constructTerminalState_def emptyState_def
  new_posArr_def new_ordArr_def new_specDict_def Let_def

lemmas example_defs = constructor_def emptyStore_def examplePrice_def exampleAccount_def
  examplePosition_def putAccount_def putPosition_def

lemma findIndex_None: "findIndex P xs = None \<longleftrightarrow> (\<forall>x\<in>set xs. \<not> P x)"
  by (induction xs) auto

lemma findIndex_Some: "findIndex P xs = Some i \<Longrightarrow> i < length xs"
  by (induction xs arbitrary: i) (auto split: if_splits)

subsection \<open>The combined state\<close>













subsection \<open>Tombstones of removed positions\<close>

lemma updatePosition_upsert:
  assumes "noTombstone (removedPositions s) (p_id (posObj h a)) \<or>
           (\<exists>p\<in>set (posArr h (positions s)). p_id (posObj h p) = p_id (posObj h a))"
  shows "a \<in> set (posArr (updatePosition a s h) (positions s))"
proof (cases "findIndex (\<lambda>p. p_id (posObj h p) = p_id (posObj h a)) (posArr h (positions s))")
  case None
  then have "noTombstone (removedPositions s) (p_id (posObj h a))"
    using assms by (auto simp: findIndex_None)
  then show ?thesis using None by (simp add: updatePosition_def)
next
  case (Some i)
  then show ?thesis
    by (simp add: updatePosition_def findIndex_Some set_update_memI)
qed

text \<open>
  The closure of \<open>onPositionUpdated\<close> on one state. Where \<open>removedPositions\<close> holds a
  tombstone for the id of the position object \<open>a\<close> (a clock reading, hence not the falsy 0)
  and no position of the state has that id, the closure writes nothing.
\<close>

lemma updatePosition_tombstone_noop:
  assumes "removedPositions s (p_id (posObj h a)) = Some t" and "t \<noteq> 0"
    and "\<forall>p\<in>set (posArr h (positions s)). p_id (posObj h p) \<noteq> p_id (posObj h a)"
  shows "updatePosition a s h = h"
proof -
  have "findIndex (\<lambda>p. p_id (posObj h p) = p_id (posObj h a)) (posArr h (positions s)) = None"
    using assms(3) by (simp add: findIndex_None)
  then show ?thesis
    using assms(1,2) by (simp add: updatePosition_def noTombstone_def)
qed

text \<open>
  The callback runs the closure on the state of the instance and on the combined state. It
  writes nothing when both hold a tombstone for the id and neither has a position with it,
  as after \<open>onPositionRemoved\<close> with no promotion in between (scenario S1).
\<close>

lemma onPositionUpdated_noop:
  assumes "stateByInstanceIndex ts idx = Some s"
    and "removedPositions s (p_id (posObj (heap ts) a)) = Some t" "t \<noteq> 0"
    and "\<forall>p\<in>set (posArr (heap ts) (positions s)).
           p_id (posObj (heap ts) p) \<noteq> p_id (posObj (heap ts) a)"
    and "removedPositions (combinedState ts) (p_id (posObj (heap ts) a)) = Some t'" "t' \<noteq> 0"
    and "\<forall>p\<in>set (posArr (heap ts) (positions (combinedState ts))).
           p_id (posObj (heap ts) p) \<noteq> p_id (posObj (heap ts) a)"
  shows "onPositionUpdated idx a ts = ts"
  using updatePosition_tombstone_noop [OF assms(2,3,4)]
    updatePosition_tombstone_noop [OF assms(5,6,7)] assms(1)
  by (simp add: onPositionUpdated_def getState_def)

text \<open>
  Claim C3 at the failing input. Position 42 is removed at clock reading 1000, which leaves
  a tombstone in the state of instance 0 and in the combined state; then
  \<open>onPendingOrdersSynchronized\<close> promotes the instance: the combined state gets the
  instance's array of positions, the same array, and an empty map of tombstones. The state
  of the instance still holds the tombstone and has no position. A stale
  \<open>onPositionUpdated\<close> with the position object of id 42, at address 0, is ignored by the
  run of the closure on the state of the instance, and pushed by the run on the combined
  state into the shared array: afterwards the positions of the instance hold the object,
  beside the tombstone.
\<close>

theorem stale_update_inserted_after_promotion:
  "map_option (\<lambda>s. (removedPositions s ''42'', posArr (heap scenarioPromoted) (positions s)))
     (stateByInstanceIndex scenarioPromoted ''0'') = Some (Some 1000, []) \<and>
   map_option (\<lambda>s. (removedPositions s ''42'',
        posArr (heap (onPositionUpdated ''0'' 0 scenarioPromoted)) (positions s)))
     (stateByInstanceIndex (onPositionUpdated ''0'' 0 scenarioPromoted) ''0'') =
     Some (Some 1000, [0]) \<and>
   p_id (posObj (heap scenarioPromoted) 0) = ''42''"
  by code_simp




subsection \<open>Price updates\<close>

text \<open>
  Claim C9, as the code has it. After \<open>onSymbolPricesUpdated\<close>, \<open>lastUpdateTime\<close> of the
  combined state and of the state of the instance is what \<open>Math.max\<close> makes of the array of
  times: 0 for no price, the time of the price for a single price, and \<open>NaN\<close> for two or
  more prices.
\<close>

theorem lastUpdateTime_after_prices:
  "lastUpdateTime (combinedState (onSymbolPricesUpdated idx prices e m f ml ts)) =
     (case prices of [] \<Rightarrow> Fin 0 | [p] \<Rightarrow> pr_time p | _ # _ # _ \<Rightarrow> NaN) \<and>
   (\<exists>s. stateByInstanceIndex (onSymbolPricesUpdated idx prices e m f ml ts) idx = Some s \<and>
        lastUpdateTime s = (case prices of [] \<Rightarrow> Fin 0 | [p] \<Rightarrow> pr_time p | _ # _ # _ \<Rightarrow> NaN))"
proof -
  have "math_max_of_array (map pr_time prices) =
        (case prices of [] \<Rightarrow> Fin 0 | [p] \<Rightarrow> pr_time p | _ # _ # _ \<Rightarrow> NaN)"
    by (simp split: list.splits)
  then show ?thesis
    by (simp add: onSymbolPricesUpdated_def updateSymbolPrices_def putState_def Let_def
        split: prod.splits)
qed

text \<open>
  Claim C9 as stated fails: after a call with a single price whose time is 1000,
  \<open>lastUpdateTime\<close> is 1000 and not \<open>NaN\<close>.
\<close>

theorem lastUpdateTime_single_price:
  "lastUpdateTime
     (combinedState (onSymbolPricesUpdated ''0'' [examplePrice] None None None None constructor))
     \<noteq> NaN"
  by (simp add: onSymbolPricesUpdated_def updateSymbolPrices_def putState_def Let_def
      examplePrice_def split: prod.splits)

text \<open>
  Claim C7 at the failing input. The account has margin level 100; a price update supplies a
  margin level of 150 and no free margin. The margin level stays 100: its assignment tests
  the free margin. And when a free margin is supplied without a margin level, the margin
  level becomes undefined.
\<close>

theorem marginLevel_gated_on_freeMargin:
  "ai_marginLevel (accObj (heap
     (onSymbolPricesUpdated ''0'' [examplePrice] None None None (Some (Fin 150))
       (onAccountInformationUpdated ''0'' 0 (putAccount 0 exampleAccount constructor)))) 0)
     = Some (Fin 100) \<and>
   ai_marginLevel (accObj (heap
     (onSymbolPricesUpdated ''0'' [examplePrice] None None (Some (Fin 9000)) None
       (onAccountInformationUpdated ''0'' 0 (putAccount 0 exampleAccount constructor)))) 0)
     = None"
  by (simp add: onSymbolPricesUpdated_def updateSymbolPrices_def priceStep_def
      updateAccount_def onAccountInformationUpdated_def state_defs example_defs
      split: prod.splits)

subsection \<open>Evaluation of examples\<close>

lemma floor_rat_numeral [simp]:
  "\<lfloor>(numeral a :: rat) / numeral b\<rfloor> = numeral a div numeral b"
  "\<lfloor>- ((numeral a :: rat) / numeral b)\<rfloor> = - numeral a div numeral b"
  using floor_divide_of_int_eq [of "numeral a" "numeral b", where ?'a = rat]
    floor_divide_of_int_eq [of "- numeral a" "numeral b", where ?'a = rat]
  by simp_all

lemmas scenario_defs = exampleState_def storeS2_def storeBalance_def scenarioReplicas_def
  exampleSpecification_def emptyStore_def exampleAccount_def examplePosition_def examplePrice_def


subsection \<open>The specification of a position\<close>

lemma upp_keeps:
  assumes "specDict h cs = D" "posObj h a = P" "map_of D (p_symbol P) = None"
  shows "specDict (updatePositionProfits cs b pr h) cs = D \<and>
         posObj (updatePositionProfits cs b pr h) a = P"
proof (cases "b = a")
  case True
  then show ?thesis using assms by (simp add: updatePositionProfits_def)
next
  case False
  then show ?thesis using assms
    by (simp add: updatePositionProfits_def Let_def split: option.splits)
qed

lemma others_keeps:
  assumes "map_of D (p_symbol P) = None"
  shows "specDict h cs = D \<Longrightarrow> posObj h a = P \<Longrightarrow>
         specDict (snd (updateOtherPositions cs pbs as (flag, h))) cs = D \<and>
         posObj (snd (updateOtherPositions cs pbs as (flag, h))) a = P"
proof (induction as arbitrary: flag h)
  case Nil
  then show ?case by simp
next
  case (Cons b as)
  then show ?case using upp_keeps [OF Cons.prems assms]
    by (simp split: option.splits)
qed

lemma fold_upp_keeps:
  assumes "map_of D (p_symbol P) = None"
  shows "specDict h cs = D \<Longrightarrow> posObj h a = P \<Longrightarrow>
         specDict (fold (\<lambda>b. updatePositionProfits cs b pr) as h) cs = D \<and>
         posObj (fold (\<lambda>b. updatePositionProfits cs b pr) as h) a = P"
proof (induction as arbitrary: h)
  case Nil
  then show ?case by simp
next
  case (Cons b as)
  then show ?case using upp_keeps [OF Cons.prems assms] by simp
qed

lemma fold_orders_keeps:
  "specDict (fold (updateOrderPrice pr) as h) = specDict h \<and>
   posObj (fold (updateOrderPrice pr) as h) = posObj h"
  by (induction as arbitrary: h) (simp_all add: updateOrderPrice_def)

lemma priceStep_keeps:
  assumes "map_of D (p_symbol P) = None"
    and "specDict (snd (snd acc)) cs = D" "posObj (snd (snd acc)) a = P"
  shows "specDict (snd (snd (priceStep cs s pr acc))) cs = D \<and>
         posObj (snd (snd (priceStep cs s pr acc))) a = P"
proof -
  obtain pbs0 flag0 h where acc: "acc = (pbs0, flag0, h)" by (cases acc) auto
  let ?pbs = "pbs0(pr_symbol pr \<mapsto> pr)"
  let ?others = "filter (\<lambda>p. p_symbol (posObj h p) \<noteq> pr_symbol pr) (posArr h (positions s))"
  let ?same = "filter (\<lambda>p. p_symbol (posObj h p) = pr_symbol pr) (posArr h (positions s))"
  let ?h1 = "snd (updateOtherPositions cs ?pbs ?others (True, h))"
  let ?h2 = "fold (\<lambda>b. updatePositionProfits cs b pr) ?same ?h1"
  have h: "specDict h cs = D" "posObj h a = P" using assms(2,3) acc by simp_all
  have 1: "specDict ?h1 cs = D \<and> posObj ?h1 a = P"
    using others_keeps [OF assms(1) h] .
  then have 2: "specDict ?h2 cs = D \<and> posObj ?h2 a = P"
    using fold_upp_keeps [OF assms(1)] by blast
  show ?thesis using 2
    by (simp add: priceStep_def acc Let_def fold_orders_keeps case_prod_beta)
qed

lemma fold_priceStep_keeps:
  assumes "map_of D (p_symbol P) = None"
  shows "specDict (snd (snd acc)) cs = D \<Longrightarrow> posObj (snd (snd acc)) a = P \<Longrightarrow>
         specDict (snd (snd (fold (priceStep cs s) prices acc))) cs = D \<and>
         posObj (snd (snd (fold (priceStep cs s) prices acc))) a = P"
proof (induction prices arbitrary: acc)
  case Nil
  then show ?case by simp
next
  case (Cons pr prices)
  then show ?case using priceStep_keeps [OF assms Cons.prems] by simp
qed

lemma updateAccount_keeps:
  "specDict (updateAccount s flag e m f ml h) = specDict h \<and>
   posObj (updateAccount s flag e m f ml h) = posObj h"
  by (simp add: updateAccount_def Let_def split: option.splits)

lemma updateSymbolPrices_keeps:
  assumes "map_of D (p_symbol P) = None" "specDict h cs = D" "posObj h a = P"
  shows "specDict (snd (updateSymbolPrices cs prices e m f ml s h)) cs = D \<and>
         posObj (snd (updateSymbolPrices cs prices e m f ml s h)) a = P"
proof -
  let ?s1 = "s\<lparr>lastUpdateTime := math_max_of_array (map pr_time prices)\<rparr>"
  let ?r = "fold (priceStep cs ?s1) prices (pricesBySymbol ?s1, False, h)"
  have "specDict (snd (snd ?r)) cs = D \<and> posObj (snd (snd ?r)) a = P"
    using fold_priceStep_keeps [OF assms(1), of "(pricesBySymbol ?s1, False, h)"] assms(2,3)
    by simp
  then show ?thesis
    by (simp add: updateSymbolPrices_def Let_def updateAccount_keeps case_prod_beta)
qed

lemma getState_keeps:
  assumes "combinedAllocated ts"
  shows "combinedState (snd (getState idx ts)) = combinedState ts \<and>
         posObj (heap (snd (getState idx ts))) = posObj (heap ts) \<and>
         specDict (heap (snd (getState idx ts))) (specificationsBySymbol (combinedState ts)) =
           specDict (heap ts) (specificationsBySymbol (combinedState ts))"
  using assms
  by (auto simp: combinedAllocated_def state_defs split: option.splits)

text \<open>
  Claim C10. The profits of a position are recomputed with the specification that the getter
  \<open>specification(symbol)\<close> finds, and the getter reads the dictionary of the combined
  state only. So for every terminal state (whose combined arrays are allocated) and every
  position object whose symbol has no specification in the combined state,
  \<open>onSymbolPricesUpdated\<close> leaves the object as it is, with its profit, unrealized and
  realized profit, current price and current tick value, whatever the dictionary of the
  instance holds.
\<close>

theorem position_without_combined_specification_unchanged:
  assumes "map_of (specDict (heap ts) (specificationsBySymbol (combinedState ts)))
             (p_symbol (posObj (heap ts) a)) = None"
    and "combinedAllocated ts"
  shows "posObj (heap (onSymbolPricesUpdated idx prices e m f ml ts)) a = posObj (heap ts) a"
proof -
  obtain s0 ts1 where g: "getState idx ts = (s0, ts1)" by (cases "getState idx ts") auto
  let ?cs = "specificationsBySymbol (combinedState ts)"
  let ?D = "specDict (heap ts) ?cs"
  let ?P = "posObj (heap ts) a"
  have k: "combinedState ts1 = combinedState ts" "posObj (heap ts1) a = ?P"
      "specDict (heap ts1) ?cs = ?D"
    using getState_keeps [OF assms(2), of idx] g by simp_all
  let ?r1 = "updateSymbolPrices ?cs prices e m f ml s0 (heap ts1)"
  have 1: "specDict (snd ?r1) ?cs = ?D \<and> posObj (snd ?r1) a = ?P"
    using updateSymbolPrices_keeps [OF assms(1) k(3) k(2)] .
  let ?r2 = "updateSymbolPrices ?cs prices e m f ml (combinedState ts) (snd ?r1)"
  have 2: "specDict (snd ?r2) ?cs = ?D \<and> posObj (snd ?r2) a = ?P"
    using updateSymbolPrices_keeps [OF assms(1)] 1 by blast
  show ?thesis using 2
    by (simp add: onSymbolPricesUpdated_def g k putState_def Let_def case_prod_beta)
qed

theorem position_without_combined_specification_unchanged_witness:
  "map_of (specDict (heap scenarioReplicas) (specificationsBySymbol (combinedState scenarioReplicas)))
     (p_symbol (posObj (heap scenarioReplicas) 0)) = None \<and>
   combinedAllocated scenarioReplicas \<and>
   map_option (\<lambda>s. map_of (specDict (heap scenarioReplicas) (specificationsBySymbol s)) ''EURUSD'')
     (stateByInstanceIndex scenarioReplicas ''0'') = Some (Some exampleSpecification) \<and>
   posArr (heap scenarioReplicas) (positions (combinedState scenarioReplicas)) = [0] \<and>
   posObj (heap (onSymbolPricesUpdated ''0'' [examplePrice] None None None None scenarioReplicas)) 0
     = examplePosition ''42''"
proof -
  have a: "map_of (specDict (heap scenarioReplicas) (specificationsBySymbol (combinedState scenarioReplicas)))
     (p_symbol (posObj (heap scenarioReplicas) 0)) = None"
    by (simp add: scenario_defs)
  have b: "combinedAllocated scenarioReplicas"
    by (simp add: scenario_defs combinedAllocated_def)
  have c: "map_option (\<lambda>s. map_of (specDict (heap scenarioReplicas) (specificationsBySymbol s)) ''EURUSD'')
     (stateByInstanceIndex scenarioReplicas ''0'') = Some (Some exampleSpecification)"
    by (simp add: scenario_defs)
  have d: "posArr (heap scenarioReplicas) (positions (combinedState scenarioReplicas)) = [0]"
    by (simp add: scenario_defs)
  have e: "posObj (heap scenarioReplicas) 0 = examplePosition ''42''"
    by (simp add: scenario_defs)
  show ?thesis
    using a b c d e position_without_combined_specification_unchanged [OF a b, of "''0''" "[examplePrice]" None None None None] by simp
qed


subsection \<open>Equity\<close>









lemma updateAccount_frame:
  "posObj (updateAccount s flag e m f ml h) = posObj h \<and>
   posArr (updateAccount s flag e m f ml h) = posArr h"
  by (simp add: updateAccount_def Let_def split: option.splits)




subsection \<open>Hashes\<close>

lemma sortByKey_le:
  assumes "map_of x key = Some (JStr a)" "map_of y key = Some (JStr b)"
  shows "(sortByKey key x y \<le> 0) = (a \<le> b)"
  using assms by (auto simp: sortByKey_def)

lemma insort_by_map:
  assumes "\<And>p q. (cmp (f p) (f q) \<le> 0) = (k p \<le> k q)"
  shows "insort_by cmp (f p) (map f qs) = map f (insort_key k p qs)"
  by (induction qs) (simp_all add: assms)

lemma sort_by_map:
  assumes "\<And>p q. (cmp (f p) (f q) \<le> 0) = (k p \<le> (k q :: 'k :: linorder))"
  shows "sort_by cmp (map f ps) = map f (sort_key k ps)"
proof (induction ps)
  case Nil
  then show ?case by (simp add: sort_by_def)
next
  case (Cons p ps)
  then show ?case
    using insort_by_map [of cmp f k p "sort_key k ps", OF assms]
    by (simp add: sort_by_def)
qed

lemma sort_key_permutation:
  fixes k :: "'a \<Rightarrow> 'k :: linorder"
  assumes "mset ps = mset qs" "distinct (map k ps)"
  shows "sort_key k ps = sort_key k qs"
proof -
  have s: "set ps = set qs" using assms(1) by (metis set_mset_mset)
  have dq: "distinct (map k qs)"
    using assms by (metis distinct_map mset_eq_imp_distinct_iff mset_eq_setD)
  have inj: "inj_on k (set (sort_key k ps) \<union> set (sort_key k qs))"
    using assms(2) s by (simp add: distinct_map)
  show ?thesis
    by (rule map_sorted_distinct_set_unique [OF inj])
       (use assms(2) dq s in \<open>simp_all add: distinct_map\<close>)
qed

lemma sorted_positions_json:
  "sort_by (sortByKey ''id'') (map position_json ps) = map position_json (sort_key p_id ps)"
  by (rule sort_by_map) (simp add: sortByKey_le position_json_def)

lemma sorted_orders_json:
  "sort_by (sortByKey ''id'') (map order_json ps) = map order_json (sort_key o_id ps)"
  by (rule sort_by_map) (simp add: sortByKey_le order_json_def)

lemma sorted_specifications_json:
  "sort_by (sortByKey ''symbol'') (map specification_json ps) =
   map specification_json (sort_key sp_symbol ps)"
  by (rule sort_by_map) (simp add: sortByKey_le specification_json_def)

lemma hashedPositions_sorted:
  "hashedPositions accountType s h =
     map (deleteKeys
            ([''profit'', ''unrealizedProfit'', ''realizedProfit'', ''currentPrice'',
              ''currentTickValue'', ''updateSequenceNumber'', ''accountCurrencyExchangeRate'',
              ''comment'', ''brokerComment'', ''clientId''] @
             (if accountType = ''cloud-g1'' then [''time'', ''updateTime''] else [])))
       (map position_json (sort_key p_id (map (posObj h) (posArr h (positions s)))))"
  using sorted_positions_json [of "map (posObj h) (posArr h (positions s))"]
  by (simp add: hashedPositions_def comp_def)

lemma hashedOrders_sorted:
  "hashedOrders accountType s h =
     map (deleteKeys
            ([''currentPrice'', ''updateSequenceNumber'', ''accountCurrencyExchangeRate'',
              ''comment'', ''brokerComment'', ''clientId''] @
             (if accountType = ''cloud-g1'' then [''time''] else [])))
       (map order_json (sort_key o_id (map (ordObj h) (ordArr h (orders s)))))"
  using sorted_orders_json [of "map (ordObj h) (ordArr h (orders s))"]
  by (simp add: hashedOrders_def comp_def)

lemma hashedSpecifications_sorted:
  "hashedSpecifications accountType s h =
     map (if accountType = ''cloud-g1'' then deleteKeys [''description''] else (\<lambda>x. x))
       (map specification_json
          (sort_key sp_symbol (map snd (specDict h (specificationsBySymbol s)))))"
  using sorted_specifications_json [of "map snd (specDict h (specificationsBySymbol s))"]
  by (simp add: hashedSpecifications_def comp_def)

lemma getHashes_twice:
  "fst (getHashes md5 ns accountType idx (snd (getHashes md5 ns accountType idx ts))) =
   fst (getHashes md5 ns accountType idx ts)"
  by (cases "stateByInstanceIndex ts idx")
     (simp_all add: getHashes_def getState_def case_prod_beta Let_def)

text \<open>
  Claim C4. \<open>getHashes\<close> called again on the state it left gives the same result. And its
  result depends on the collections only up to their order: for two states and stores whose
  positions, orders and specifications are the same up to a permutation, the ids of the
  positions and of the orders and the symbols of the specifications being distinct (invariant
  1 of the data model), and whose two flags agree, the three digests, or the error, are the
  same.
\<close>

theorem getHashes_deterministic_and_order_independent:
  assumes "mset (map (posObj h') (posArr h' (positions s'))) =
           mset (map (posObj h) (posArr h (positions s)))"
    and "distinct (map p_id (map (posObj h) (posArr h (positions s))))"
    and "mset (map (ordObj h') (ordArr h' (orders s'))) =
         mset (map (ordObj h) (ordArr h (orders s)))"
    and "distinct (map o_id (map (ordObj h) (ordArr h (orders s))))"
    and "mset (map snd (specDict h' (specificationsBySymbol s'))) =
         mset (map snd (specDict h (specificationsBySymbol s)))"
    and "distinct (map sp_symbol (map snd (specDict h (specificationsBySymbol s))))"
    and "positionsInitialized s' = positionsInitialized s"
    and "ordersInitialized s' = ordersInitialized s"
  shows "hashesOf md5 ns accountType s' h' = hashesOf md5 ns accountType s h \<and>
         fst (getHashes md5 ns accountType idx (snd (getHashes md5 ns accountType idx ts))) =
           fst (getHashes md5 ns accountType idx ts)"
proof -
  have p: "hashedPositions accountType s' h' = hashedPositions accountType s h"
    unfolding hashedPositions_sorted
    using sort_key_permutation [OF assms(1) [symmetric] assms(2)] by simp
  have o: "hashedOrders accountType s' h' = hashedOrders accountType s h"
    unfolding hashedOrders_sorted
    using sort_key_permutation [OF assms(3) [symmetric] assms(4)] by simp
  have sp: "hashedSpecifications accountType s' h' = hashedSpecifications accountType s h"
    unfolding hashedSpecifications_sorted
    using sort_key_permutation [OF assms(5) [symmetric] assms(6)] by simp
  show ?thesis
    by (simp only: hashesOf_def p o sp assms(7,8) getHashes_twice)
qed

theorem getHashes_deterministic_and_order_independent_witness:
  "posArr storeS2 0 = [0, 1] \<and> posArr storeS2_swapped 0 = [1, 0] \<and>
   hashesOf (\<lambda>x. x) (\<lambda>_. []) ''cloud-g1'' (exampleState 0 1 2) storeS2_swapped =
   hashesOf (\<lambda>x. x) (\<lambda>_. []) ''cloud-g1'' (exampleState 0 1 2) storeS2"
proof -
  have a: "posArr storeS2 0 = [0, 1]" "posArr storeS2_swapped 0 = [1, 0]"
    by (simp_all add: storeS2_swapped_def storeS2_def)
  have o: "posObj storeS2_swapped = posObj storeS2" "ordObj storeS2_swapped = ordObj storeS2"
     "ordArr storeS2_swapped = ordArr storeS2" "specDict storeS2_swapped = specDict storeS2"
    by (simp_all add: storeS2_swapped_def)
  have 1: "mset (map (posObj storeS2_swapped) (posArr storeS2_swapped (positions (exampleState 0 1 2)))) =
           mset (map (posObj storeS2) (posArr storeS2 (positions (exampleState 0 1 2))))"
    by (simp add: a o exampleState_def)
  have 2: "distinct (map p_id (map (posObj storeS2) (posArr storeS2 (positions (exampleState 0 1 2)))))"
    by (simp add: a exampleState_def) (simp add: storeS2_def examplePosition_def)
  have 3: "distinct (map o_id (map (ordObj storeS2) (ordArr storeS2 (orders (exampleState 0 1 2)))))"
     "distinct (map sp_symbol (map snd (specDict storeS2 (specificationsBySymbol (exampleState 0 1 2)))))"
    by (simp_all add: storeS2_def emptyStore_def exampleState_def)
  show ?thesis
    using a getHashes_deterministic_and_order_independent [OF 1 2 _ 3(1) _ 3(2), of "\<lambda>x. x" "\<lambda>_. []" "''cloud-g1''"]
    by (simp add: o)
qed






subsection \<open>Requests and replies\<close>























subsection \<open>The sums of the equity\<close>

text \<open>
  Where the unrealized profits, swaps and commissions are finite numbers (or missing), the
  two \<open>reduce\<close> calls compute the sums of the rounded values.
\<close>

lemma round2_or_zero:
  "finiteOrZero v = Some x \<Longrightarrow> round2 (or_zero v) = Fin (rounded2 x)"
  by (cases v rule: finiteOrZero.cases) (simp_all add: round2_def rounded2_def)

lemma sumMt5_sums:
  assumes "\<forall>p\<in>set ps. finiteOrZero (p_unrealizedProfit p) \<noteq> None \<and> finiteOrZero (p_swap p) \<noteq> None"
  shows "sumMt5 ps =
     Fin ((\<Sum>p\<leftarrow>ps. rounded2 (the (finiteOrZero (p_unrealizedProfit p)))) +
          (\<Sum>p\<leftarrow>ps. rounded2 (the (finiteOrZero (p_swap p)))))"
proof -
  have "foldl (\<lambda>acc p. num_add (num_add acc (round2 (or_zero (p_unrealizedProfit p))))
                       (round2 (or_zero (p_swap p)))) (Fin c) ps =
     Fin (c + (\<Sum>p\<leftarrow>ps. rounded2 (the (finiteOrZero (p_unrealizedProfit p)))) +
          (\<Sum>p\<leftarrow>ps. rounded2 (the (finiteOrZero (p_swap p)))))" for c
    using assms
  proof (induction ps arbitrary: c)
    case Nil
    then show ?case by simp
  next
    case (Cons p ps)
    obtain u w where uw: "finiteOrZero (p_unrealizedProfit p) = Some u"
        "finiteOrZero (p_swap p) = Some w"
      using Cons.prems by auto
    show ?case
      using Cons.IH [of "c + rounded2 u + rounded2 w"] Cons.prems
      by (simp add: uw round2_or_zero [OF uw(1)] round2_or_zero [OF uw(2)] algebra_simps)
  qed
  from this [of 0] show ?thesis by (simp add: sumMt5_def)
qed

lemma sumOther_sums:
  assumes "\<forall>p\<in>set ps. finiteOrZero (p_unrealizedProfit p) \<noteq> None \<and>
             finiteOrZero (p_swap p) \<noteq> None \<and> finiteOrZero (p_commission p) \<noteq> None"
  shows "sumOther ps =
     Fin ((\<Sum>p\<leftarrow>ps. rounded2 (the (finiteOrZero (p_swap p)))) +
          (\<Sum>p\<leftarrow>ps. rounded2 (the (finiteOrZero (p_commission p)))) +
          (\<Sum>p\<leftarrow>ps. rounded2 (the (finiteOrZero (p_unrealizedProfit p)))))"
proof -
  have "foldl (\<lambda>acc p. num_add (num_add (num_add acc (round2 (or_zero (p_swap p))))
                       (round2 (or_zero (p_commission p))))
                       (round2 (or_zero (p_unrealizedProfit p)))) (Fin c) ps =
     Fin (c + (\<Sum>p\<leftarrow>ps. rounded2 (the (finiteOrZero (p_swap p)))) +
          (\<Sum>p\<leftarrow>ps. rounded2 (the (finiteOrZero (p_commission p)))) +
          (\<Sum>p\<leftarrow>ps. rounded2 (the (finiteOrZero (p_unrealizedProfit p)))))" for c
    using assms
  proof (induction ps arbitrary: c)
    case Nil
    then show ?case by simp
  next
    case (Cons p ps)
    obtain u w k where uw: "finiteOrZero (p_unrealizedProfit p) = Some u"
        "finiteOrZero (p_swap p) = Some w" "finiteOrZero (p_commission p) = Some k"
      using Cons.prems by auto
    show ?case
      using Cons.IH [of "c + rounded2 w + rounded2 k + rounded2 u"] Cons.prems
      by (simp add: uw round2_or_zero [OF uw(1)] round2_or_zero [OF uw(2)]
          round2_or_zero [OF uw(3)] algebra_simps)
  qed
  from this [of 0] show ?thesis by (simp add: sumOther_def)
qed

end
